theory Spec2Isabelle
  imports Main
begin

section \<open>The media player panel (media/player/media_player_panel.cpp)\<close>

text \<open>
  The panel is a widget of a Qt application. Its member functions are embedded as
  functions from the panel's state to its next state. What the functions read from the
  rest of the application is passed in: the style constants and platform switches as a
  record \<open>settings\<close>, the data that changes between calls (the current song, the message
  store, the window, the cursor) as a record \<open>app\<close>. Qt's \<open>int\<close> is modelled by
  \<open>int\<close>: the panel adds a handful of style constants and widget sizes.
\<close>

subsection \<open>Settings and application data\<close>

record settings =
  mediaPlayerPanelMarginLeft :: int
  mediaPlayerPanelMarginBottom :: int
  mediaPlayerPanelWidth :: int
  mediaPlayerListHeightMax :: int
  mediaPlayerListMarginBottom :: int
  mediaPlayerScrollShadow_extend_bottom :: int
  infoMediaMargin_top :: int
  infoMediaMargin_bottom :: int
  overviewFileLayout_songPadding_top :: int
  overviewFileLayout_songPadding_bottom :: int
  overviewFileLayout_songThumbSize :: int
  rtl :: bool
  platformMac :: bool
  coverInitialHeight :: int
  coverResizeGetHeight :: "int \<Rightarrow> int"

text \<open>
  \<open>rtl\<close> is the value of \<open>rtl()\<close>, \<open>platformMac\<close> the value of
  \<open>cPlatform() == dbipMac || cPlatform() == dbipMacOld\<close>. \<open>coverInitialHeight\<close> is
  the height of a cover widget as its constructor leaves it and \<open>coverResizeGetHeight\<close>
  the height it takes for a width in \<open>resizeToWidth\<close>.
\<close>

type_synonym peer_id = nat
type_synonym msg_id = nat

record document =
  isSharedMediaMusic :: bool

record media =
  getDocument :: "document option"

record hist_item =
  getMedia :: "media option"
  history_peer :: peer_id

record app =
  current_contextId :: "msg_id option"
  histItemById :: "msg_id \<Rightarrow> hist_item option"
  migrateTo :: "peer_id \<Rightarrow> peer_id option"
  migrateFrom :: "peer_id \<Rightarrow> peer_id option"
  hasWindow :: bool
  windowActive :: bool
  widgetGlobalPos :: "int \<times> int"
  cursorPos :: "int \<times> int"
  newListHeight :: int

text \<open>
  \<open>current_contextId\<close> is \<open>instance()->current(AudioMsgId::Type::Song).contextId()\<close>,
  \<open>None\<close> when it converts to false. Pointers to peers are \<open>peer_id option\<close>, the
  null pointer being \<open>None\<close>. \<open>hasWindow\<close> says that \<open>App::wnd()\<close> is not null,
  \<open>windowActive\<close> is \<open>App::wnd()->windowHandle()->isActive()\<close>,
  \<open>widgetGlobalPos\<close> is the panel's top left corner in global coordinates (what
  \<open>mapFromGlobal\<close> subtracts), \<open>cursorPos\<close> is \<open>QCursor::pos()\<close> and
  \<open>newListHeight\<close> the height of a list widget as its constructor leaves it.
\<close>

subsection \<open>Rectangles of the toolkit\<close>

text \<open>
  A \<open>QRect\<close> stores its corners inclusively: a rectangle at \<open>(x, y)\<close> of size
  \<open>(w, h)\<close> has \<open>x2 = x + w - 1\<close> and \<open>y2 = y + h - 1\<close>.
\<close>

record QRect =
  x1 :: int
  y1 :: int
  x2 :: int
  y2 :: int

record QMargins =
  m_left :: int
  m_top :: int
  m_right :: int
  m_bottom :: int

definition QRect_xywh :: "int \<Rightarrow> int \<Rightarrow> int \<Rightarrow> int \<Rightarrow> QRect" where
  "QRect_xywh x y w h = \<lparr>x1 = x, y1 = y, x2 = x + w - 1, y2 = y + h - 1\<rparr>"

definition QRect_point_size :: "int \<times> int \<Rightarrow> int \<times> int \<Rightarrow> QRect" where
  "QRect_point_size p sz = QRect_xywh (fst p) (snd p) (fst sz) (snd sz)"

definition QRect_topLeft :: "QRect \<Rightarrow> int \<times> int" where
  "QRect_topLeft r = (x1 r, y1 r)"

definition QRect_size :: "QRect \<Rightarrow> int \<times> int" where
  "QRect_size r = (x2 r - x1 r + 1, y2 r - y1 r + 1)"

definition QRect_isNull :: "QRect \<Rightarrow> bool" where
  "QRect_isNull r = (x2 r = x1 r - 1 \<and> y2 r = y1 r - 1)"

definition marginsRemoved :: "QRect \<Rightarrow> QMargins \<Rightarrow> QRect" where
  "marginsRemoved r m =
     \<lparr>x1 = x1 r + m_left m, y1 = y1 r + m_top m, x2 = x2 r - m_right m, y2 = y2 r - m_bottom m\<rparr>"

text \<open>\<open>QRect::contains(const QRect &, proper = false)\<close>: null rectangles contain
  nothing and are contained in nothing; a rectangle of negative extent is read with its
  edges exchanged.\<close>

definition QRect_contains :: "QRect \<Rightarrow> QRect \<Rightarrow> bool" where
  "QRect_contains a r =
     (if QRect_isNull a \<or> QRect_isNull r then False
      else
        let l1 = (if x2 a - x1 a + 1 < 0 then x2 a else x1 a);
            r1 = (if x2 a - x1 a + 1 < 0 then x1 a else x2 a);
            l2 = (if x2 r - x1 r + 1 < 0 then x2 r else x1 r);
            r2 = (if x2 r - x1 r + 1 < 0 then x1 r else x2 r)
        in if l2 < l1 \<or> r1 < r2 then False
           else
             let t1 = (if y2 a - y1 a + 1 < 0 then y2 a else y1 a);
                 b1 = (if y2 a - y1 a + 1 < 0 then y1 a else y2 a);
                 t2 = (if y2 r - y1 r + 1 < 0 then y2 r else y1 r);
                 b2 = (if y2 r - y1 r + 1 < 0 then y1 r else y2 r)
             in if t2 < t1 \<or> b1 < b2 then False else True)"

text \<open>\<open>QRect::contains(const QPoint &, proper = false)\<close>.\<close>

definition QRect_contains_point :: "QRect \<Rightarrow> int \<times> int \<Rightarrow> bool" where
  "QRect_contains_point a p =
     (let l = (if x2 a < x1 a - 1 then x2 a else x1 a);
          r = (if x2 a < x1 a - 1 then x1 a else x2 a)
      in if fst p < l \<or> r < fst p then False
         else
           let t = (if y2 a < y1 a - 1 then y2 a else y1 a);
               b = (if y2 a < y1 a - 1 then y1 a else y2 a)
           in if snd p < t \<or> b < snd p then False else True)"

text \<open>The points of a rectangle, for reading containment geometrically.\<close>

definition QRect_points :: "QRect \<Rightarrow> (int \<times> int) set" where
  "QRect_points r = {p. x1 r \<le> fst p \<and> fst p \<le> x2 r \<and> y1 r \<le> snd p \<and> snd p \<le> y2 r}"

subsection \<open>The panel and its child widgets\<close>

datatype Layout = Full | OnlyPlaylist

text \<open>
  A child widget carries \<open>isHidden()\<close> and what the panel sets or reads of it. A list
  widget carries a serial number, its identity as an object: the number of list widgets
  the panel had constructed before it.
\<close>

record list_widget =
  lw_serial :: nat
  lw_width :: int
  lw_height :: int
  lw_preventAutoHide :: bool
  lw_currentSongY :: int

record cover_widget =
  cv_hidden :: bool
  cv_width :: int
  cv_height :: int
  cv_right :: int
  cv_top :: int

record shadow_widget =
  sh_hidden :: bool
  sh_width :: int
  sh_height :: int
  sh_right :: int
  sh_top :: int

text \<open>\<open>sc_geometry\<close> holds the arguments of the last \<open>setGeometryToRight\<close>,
  \<open>sc_scrollToY\<close> the argument of the last \<open>scrollToY\<close>.\<close>

record scroll_area =
  sc_widget :: "list_widget option"
  sc_hidden :: bool
  sc_geometry :: "(int \<times> int \<times> int \<times> int) option"
  sc_scrollToY :: "int option"

text \<open>
  The fields of \<open>Panel\<close>. \<open>hidden\<close>, \<open>width\<close> and \<open>height\<close> are the widget's
  \<open>isHidden()\<close>, \<open>width()\<close> and \<open>height()\<close>; \<open>cacheNull\<close> is
  \<open>_cache.isNull()\<close>; \<open>animating\<close> is \<open>_a_appearance.animating()\<close>, also where
  the source asks with the current time (\<open>animating(getms())\<close>): the animation's
  progress is the event \<open>AnimationFrame\<close> below; a timer is
  \<open>Some d\<close> when \<open>callOnce(d)\<close> armed it and it has neither fired nor been cancelled;
  \<open>refreshListLifetime\<close> says that the subscription to the playlist changes is alive and
  \<open>activeChangedConnected\<close> that \<open>windowActiveChanged\<close> is connected to the window;
  \<open>allocated\<close> counts the list widgets constructed so far. \<open>_scroll\<close> is constructed
  with the panel and never reset, so it is a field and not an option. The pin and close
  callbacks are left out: the panel only forwards them to the cover.
\<close>

record panel =
  layout :: Layout
  hidden :: bool
  width :: int
  height :: int
  hiding :: bool
  cacheNull :: bool
  animating :: bool
  ignoringEnterEvents :: bool
  showTimer :: "int option"
  hideTimer :: "int option"
  scroll :: scroll_area
  cover :: "cover_widget option"
  scrollShadow :: "shadow_widget option"
  listPeer :: "peer_id option"
  listMigratedPeer :: "peer_id option"
  refreshListLifetime :: bool
  activeChangedConnected :: bool
  allocated :: nat

subsection \<open>Margins and sizes\<close>

definition kDelayedHideTimeout :: int where
  "kDelayedHideTimeout = 3000"

definition contentLeft :: "settings \<Rightarrow> int" where
  "contentLeft st = mediaPlayerPanelMarginLeft st"

definition contentTop :: "settings \<Rightarrow> panel \<Rightarrow> int" where
  "contentTop st s = (if layout s = Full then 0 else mediaPlayerPanelMarginLeft st)"

definition contentRight :: "settings \<Rightarrow> panel \<Rightarrow> int" where
  "contentRight st s = (if layout s = Full then 0 else mediaPlayerPanelMarginLeft st)"

definition contentBottom :: "settings \<Rightarrow> int" where
  "contentBottom st = mediaPlayerPanelMarginBottom st"

definition scrollMarginBottom :: int where
  "scrollMarginBottom = 0"

text \<open>
  Modelled from the spec: \<open>contentWidth()\<close> is defined in media_player_panel.h, which
  is not among the sources. The panel's width is the content between a left and a right
  margin, so the content width is the width without the two margins.
\<close>

definition contentWidth :: "settings \<Rightarrow> panel \<Rightarrow> int" where
  "contentWidth st s = width s - contentLeft st - contentRight st s"

definition emptyInnerHeight :: "settings \<Rightarrow> int" where
  "emptyInnerHeight st =
     infoMediaMargin_top st
     + overviewFileLayout_songPadding_top st
     + overviewFileLayout_songThumbSize st
     + overviewFileLayout_songPadding_bottom st
     + infoMediaMargin_bottom st"

definition contentTooSmall :: "settings \<Rightarrow> panel \<Rightarrow> bool" where
  "contentTooSmall st s =
     (let innerHeight = (case sc_widget (scroll s) of
                           Some w \<Rightarrow> lw_height w
                         | None \<Rightarrow> emptyInnerHeight st)
      in innerHeight \<le> emptyInnerHeight st \<and> cover s = None)"

definition preventAutoHide :: "panel \<Rightarrow> bool" where
  "preventAutoHide s =
     (case sc_widget (scroll s) of Some l \<Rightarrow> lw_preventAutoHide l | None \<Rightarrow> False)"

definition rect :: "panel \<Rightarrow> QRect" where
  "rect s = QRect_xywh 0 0 (width s) (height s)"

definition mapFromGlobal :: "app \<Rightarrow> int \<times> int \<Rightarrow> int \<times> int" where
  "mapFromGlobal a p = (fst p - fst (widgetGlobalPos a), snd p - snd (widgetGlobalPos a))"

definition overlaps :: "settings \<Rightarrow> app \<Rightarrow> panel \<Rightarrow> QRect \<Rightarrow> bool" where
  "overlaps st a s globalRect =
     (if hidden s \<or> animating s then False
      else
        let marginLeft = (if rtl st then contentRight st s else contentLeft st);
            marginRight = (if rtl st then contentLeft st else contentRight st s)
        in QRect_contains
             (marginsRemoved (rect s)
                \<lparr>m_left = marginLeft, m_top = contentTop st s,
                 m_right = marginRight, m_bottom = contentBottom st\<rparr>)
             (QRect_point_size (mapFromGlobal a (QRect_topLeft globalRect))
                (QRect_size globalRect)))"

subsection \<open>Geometry\<close>

text \<open>The local variable \<open>listHeight\<close> of \<open>updateSize\<close>.\<close>

definition listHeight :: "panel \<Rightarrow> int" where
  "listHeight s = (case sc_widget (scroll s) of Some w \<Rightarrow> lw_height w | None \<Rightarrow> 0)"

definition updateSize :: "settings \<Rightarrow> panel \<Rightarrow> panel" where
  "updateSize st s =
     (let w = contentLeft st + mediaPlayerPanelWidth st + contentRight st s;
          h0 = contentTop st s + (case cover s of Some c \<Rightarrow> cv_height c | None \<Rightarrow> 0);
          scrollVisible = (0 < listHeight s);
          scrollHeight = (if scrollVisible
                          then min (listHeight s) (mediaPlayerListHeightMax st)
                               + mediaPlayerListMarginBottom st
                          else 0);
          h = h0 + (scrollHeight + contentBottom st)
      in s\<lparr>width := w, height := h,
           scroll := (scroll s)\<lparr>sc_hidden := \<not> scrollVisible\<rparr>,
           scrollShadow :=
             map_option (\<lambda>sh. sh\<lparr>sh_hidden := \<not> scrollVisible\<rparr>) (scrollShadow s)\<rparr>)"

text \<open>
  \<open>updateControlsGeometry\<close>, with its local variables \<open>scrollTop\<close> (its final value)
  and \<open>scrollHeight\<close> as functions of the state it is called in. \<open>resizeToWidth\<close>
  gives the cover the height its \<open>resizeGetHeight\<close> answers; the list widget reports
  the height it takes through its height stream (the event \<open>ListHeightValue\<close> below).
\<close>

definition resizedCover :: "settings \<Rightarrow> panel \<Rightarrow> cover_widget option" where
  "resizedCover st s =
     map_option
       (\<lambda>c. c\<lparr>cv_width := contentWidth st s,
              cv_height := coverResizeGetHeight st (contentWidth st s),
              cv_right := contentRight st s,
              cv_top := contentTop st s\<rparr>)
       (cover s)"

definition geometryScrollTop :: "settings \<Rightarrow> panel \<Rightarrow> int" where
  "geometryScrollTop st s =
     (case resizedCover st s of
        Some c \<Rightarrow> contentTop st s + cv_height c
      | None \<Rightarrow> contentTop st s)"

definition geometryScrollHeight :: "settings \<Rightarrow> panel \<Rightarrow> int" where
  "geometryScrollHeight st s =
     max (height s - geometryScrollTop st s - contentBottom st - scrollMarginBottom) 0"

definition updateControlsGeometry :: "settings \<Rightarrow> panel \<Rightarrow> panel" where
  "updateControlsGeometry st s =
     (let scrollTop = geometryScrollTop st s;
          w = contentWidth st s;
          shadow = (case cover s of
                      Some c \<Rightarrow>
                        map_option
                          (\<lambda>sh. sh\<lparr>sh_width := w,
                                  sh_height := mediaPlayerScrollShadow_extend_bottom st,
                                  sh_right := contentRight st s,
                                  sh_top := scrollTop\<rparr>)
                          (scrollShadow s)
                    | None \<Rightarrow> scrollShadow s);
          scrollHeight = geometryScrollHeight st s;
          sc1 = (if 0 < scrollHeight
                 then (scroll s)\<lparr>sc_geometry :=
                        Some (contentRight st s, scrollTop, w, scrollHeight)\<rparr>
                 else scroll s);
          sc2 = sc1\<lparr>sc_widget := map_option (\<lambda>l. l\<lparr>lw_width := w\<rparr>) (sc_widget sc1)\<rparr>
      in s\<lparr>cover := resizedCover st s, scrollShadow := shadow, scroll := sc2\<rparr>)"

definition resizeEvent :: "settings \<Rightarrow> panel \<Rightarrow> panel" where
  "resizeEvent st s = updateControlsGeometry st s"

definition scrollPlaylistToCurrentTrack :: "settings \<Rightarrow> panel \<Rightarrow> panel" where
  "scrollPlaylistToCurrentTrack st s =
     (case sc_widget (scroll s) of
        Some l \<Rightarrow>
          s\<lparr>scroll := (scroll s)\<lparr>sc_scrollToY :=
               Some (lw_currentSongY l - infoMediaMargin_top st)\<rparr>\<rparr>
      | None \<Rightarrow> s)"

definition listHeightUpdated :: "settings \<Rightarrow> int \<Rightarrow> panel \<Rightarrow> panel" where
  "listHeightUpdated st newHeight s =
     (if emptyInnerHeight st < newHeight \<or> cover s \<noteq> None
      then updateSize st s
      else s\<lparr>hideTimer := Some 0\<rparr>)"

subsection \<open>The playlist and its peer\<close>

text \<open>The peer that \<open>refreshList\<close> resolves from the current song, and the peer it
  migrated from.\<close>

definition resolvePeer :: "app \<Rightarrow> peer_id option" where
  "resolvePeer a =
     (let item = (case current_contextId a of Some i \<Rightarrow> histItemById a i | None \<Rightarrow> None);
          media = (case item of Some it \<Rightarrow> getMedia it | None \<Rightarrow> None);
          document = (case media of Some m \<Rightarrow> getDocument m | None \<Rightarrow> None)
      in case document of
           None \<Rightarrow> None
         | Some d \<Rightarrow>
             if \<not> isSharedMediaMusic d then None
             else (case item of
                     None \<Rightarrow> None
                   | Some it \<Rightarrow>
                       (case migrateTo a (history_peer it) of
                          Some migrated \<Rightarrow> Some migrated
                        | None \<Rightarrow> Some (history_peer it))))"

definition resolveMigrated :: "app \<Rightarrow> peer_id option" where
  "resolveMigrated a = (case resolvePeer a of Some p \<Rightarrow> migrateFrom a p | None \<Rightarrow> None)"

definition newListWidget :: "app \<Rightarrow> panel \<Rightarrow> list_widget" where
  "newListWidget a s =
     \<lparr>lw_serial = allocated s, lw_width = 0, lw_height = newListHeight a,
      lw_preventAutoHide = False, lw_currentSongY = 0\<rparr>"

text \<open>
  \<open>refreshList\<close>. The handlers it attaches to the new list widget live as long as the
  widget does; their calls are the events \<open>ListCheckForHide\<close>, \<open>ListHeightValue\<close>
  and \<open>ListScrollToRequest\<close> below.
\<close>

definition refreshList :: "settings \<Rightarrow> app \<Rightarrow> panel \<Rightarrow> panel" where
  "refreshList st a s =
     (let peer = resolvePeer a;
          migrated = resolveMigrated a;
          s1 = (if listPeer s \<noteq> peer \<or> listMigratedPeer s \<noteq> migrated
                then s\<lparr>scroll := (scroll s)\<lparr>sc_widget := None\<rparr>,
                       listPeer := None, listMigratedPeer := None\<rparr>
                else s)
      in if peer \<noteq> None \<and> listPeer s1 = None
         then updateControlsGeometry st
                (updateSize st
                   (s1\<lparr>listPeer := peer, listMigratedPeer := migrated,
                       scroll := (scroll s1)\<lparr>sc_widget := Some (newListWidget a s1)\<rparr>,
                       allocated := Suc (allocated s1)\<rparr>))
         else s1)"

definition newCover :: "settings \<Rightarrow> cover_widget" where
  "newCover st =
     \<lparr>cv_hidden = True, cv_width = 0, cv_height = coverInitialHeight st,
      cv_right = 0, cv_top = 0\<rparr>"

definition newShadow :: shadow_widget where
  "newShadow = \<lparr>sh_hidden = True, sh_width = 0, sh_height = 0, sh_right = 0, sh_top = 0\<rparr>"

definition ensureCreated :: "settings \<Rightarrow> app \<Rightarrow> panel \<Rightarrow> panel" where
  "ensureCreated st a s =
     (if sc_widget (scroll s) \<noteq> None then s
      else
        let s1 = (if layout s = Full
                  then s\<lparr>cover := Some (newCover st), scrollShadow := Some newShadow\<rparr>
                  else s);
            s2 = refreshList st a (s1\<lparr>refreshListLifetime := True\<rparr>);
            s3 = (if platformMac st \<and> hasWindow a
                  then s2\<lparr>activeChangedConnected := True\<rparr>
                  else s2)
        in s3\<lparr>ignoringEnterEvents := False\<rparr>)"

definition performDestroy :: "settings \<Rightarrow> app \<Rightarrow> panel \<Rightarrow> panel" where
  "performDestroy st a s =
     (if sc_widget (scroll s) = None then s
      else
        let s1 = s\<lparr>cover := None,
                   scroll := (scroll s)\<lparr>sc_widget := None\<rparr>,
                   listPeer := None, listMigratedPeer := None,
                   refreshListLifetime := False\<rparr>
        in if platformMac st \<and> hasWindow a
           then s1\<lparr>activeChangedConnected := False\<rparr>
           else s1)"

text \<open>
  \<open>peer()\<close> returns \<open>not_null<PeerData*>\<close>: the conversion of \<open>_listPeer\<close> to it
  fails on the null pointer. \<open>migrated()\<close> returns the plain pointer.
\<close>

datatype failure = NotNullViolated

definition peer :: "panel \<Rightarrow> failure + peer_id" where
  "peer s = (case listPeer s of None \<Rightarrow> Inl NotNullViolated | Some p \<Rightarrow> Inr p)"

definition migrated :: "panel \<Rightarrow> peer_id option" where
  "migrated s = listMigratedPeer s"

subsection \<open>Showing and hiding\<close>

definition showChildren :: "panel \<Rightarrow> panel" where
  "showChildren s =
     s\<lparr>scroll := (scroll s)\<lparr>sc_hidden := False\<rparr>,
       cover := map_option (\<lambda>c. c\<lparr>cv_hidden := False\<rparr>) (cover s),
       scrollShadow := map_option (\<lambda>sh. sh\<lparr>sh_hidden := False\<rparr>) (scrollShadow s)\<rparr>"

definition hideChildren :: "panel \<Rightarrow> panel" where
  "hideChildren s =
     s\<lparr>scroll := (scroll s)\<lparr>sc_hidden := True\<rparr>,
       cover := map_option (\<lambda>c. c\<lparr>cv_hidden := True\<rparr>) (cover s),
       scrollShadow := map_option (\<lambda>sh. sh\<lparr>sh_hidden := True\<rparr>) (scrollShadow s)\<rparr>"

definition hideFinished :: "settings \<Rightarrow> app \<Rightarrow> panel \<Rightarrow> panel" where
  "hideFinished st a s = performDestroy st a (s\<lparr>hidden := True, cacheNull := True\<rparr>)"

definition startAnimation :: "panel \<Rightarrow> panel" where
  "startAnimation s =
     (let s1 = (if cacheNull s then (showChildren s)\<lparr>cacheNull := False\<rparr> else s)
      in (hideChildren s1)\<lparr>animating := True\<rparr>)"

definition appearanceCallback :: "settings \<Rightarrow> app \<Rightarrow> panel \<Rightarrow> panel" where
  "appearanceCallback st a s =
     (if \<not> animating s \<and> hiding s then hideFinished st a (s\<lparr>hiding := False\<rparr>) else s)"

definition startHide :: "panel \<Rightarrow> panel" where
  "startHide s =
     (if hiding s \<or> hidden s then s else startAnimation (s\<lparr>hiding := True\<rparr>))"

definition startHideChecked :: "settings \<Rightarrow> app \<Rightarrow> panel \<Rightarrow> panel" where
  "startHideChecked st a s =
     (if \<not> contentTooSmall st s \<and> preventAutoHide s then s
      else if hidden s then hideFinished st a s
      else startHide s)"

definition hideIgnoringEnterEvents :: "settings \<Rightarrow> app \<Rightarrow> panel \<Rightarrow> panel" where
  "hideIgnoringEnterEvents st a s =
     (let s1 = s\<lparr>ignoringEnterEvents := True\<rparr>
      in if hidden s1 then hideFinished st a s1 else startHide s1)"

definition startShow :: "settings \<Rightarrow> app \<Rightarrow> panel \<Rightarrow> panel" where
  "startShow st a s =
     (let s1 = ensureCreated st a s
      in if contentTooSmall st s1 then s1
         else if hidden s1
         then startAnimation
                ((scrollPlaylistToCurrentTrack st s1)\<lparr>hidden := False, hiding := False\<rparr>)
         else if \<not> hiding s1 then s1
         else startAnimation (s1\<lparr>hiding := False\<rparr>))"

definition paintEvent :: "settings \<Rightarrow> app \<Rightarrow> panel \<Rightarrow> panel" where
  "paintEvent st a s =
     (if \<not> cacheNull s
      then if animating s then s
           else if hiding s \<or> hidden s then hideFinished st a s
           else (showChildren s)\<lparr>cacheNull := True\<rparr>
      else s)"

definition enterEventHook :: "settings \<Rightarrow> app \<Rightarrow> panel \<Rightarrow> panel" where
  "enterEventHook st a s =
     (if ignoringEnterEvents s \<or> contentTooSmall st s then s
      else
        let s1 = s\<lparr>hideTimer := None\<rparr>
        in if animating s1 then startShow st a s1 else s1\<lparr>showTimer := Some 0\<rparr>)"

definition leaveEventHook :: "panel \<Rightarrow> panel" where
  "leaveEventHook s =
     (if preventAutoHide s then s
      else
        let s1 = s\<lparr>showTimer := None\<rparr>
        in if animating s1 then startHide s1 else s1\<lparr>hideTimer := Some 300\<rparr>)"

definition showFromOther :: "settings \<Rightarrow> app \<Rightarrow> panel \<Rightarrow> panel" where
  "showFromOther st a s =
     (let s1 = s\<lparr>hideTimer := None\<rparr>
      in if animating s1 then startShow st a s1 else s1\<lparr>showTimer := Some 300\<rparr>)"

definition hideFromOther :: "panel \<Rightarrow> panel" where
  "hideFromOther s =
     (let s1 = s\<lparr>showTimer := None\<rparr>
      in if animating s1 then startHide s1 else s1\<lparr>hideTimer := Some 0\<rparr>)"

definition windowActiveChanged :: "app \<Rightarrow> panel \<Rightarrow> panel" where
  "windowActiveChanged a s =
     (if \<not> windowActive a \<and> \<not> hidden s then leaveEventHook s else s)"

text \<open>
  Modelled from the spec: the in-class initialisers of the fields are in
  media_player_panel.h, which is not among the sources. The cover and the scroll shadow
  are created in \<open>ensureCreated\<close> and \<open>_listPeer\<close> is null from construction,
  so the pointers start null; the flags start false, the timers idle, no animation runs
  and the cache is a null pixmap. The constructor's body, which is in the source, hides
  the widget and sets its size.
\<close>

definition Panel_ctor :: "settings \<Rightarrow> Layout \<Rightarrow> panel" where
  "Panel_ctor st l =
     updateSize st
       (\<lparr>layout = l, hidden = True, width = 0, height = 0,
         hiding = False, cacheNull = True, animating = False,
         ignoringEnterEvents = False, showTimer = None, hideTimer = None,
         scroll = \<lparr>sc_widget = None, sc_hidden = True, sc_geometry = None,
                   sc_scrollToY = None\<rparr>,
         cover = None, scrollShadow = None,
         listPeer = None, listMigratedPeer = None,
         refreshListLifetime = False, activeChangedConnected = False,
         allocated = 0\<rparr>)"

subsection \<open>The panel in the event loop\<close>

text \<open>
  Everything that reaches the panel from outside, one event at a time: the two timers
  firing, a frame of the appearance animation (with \<open>True\<close> when the animation ends
  with this frame), the widget events, the three public operations, the window's
  activation signal, a playlist change, and what the list widget sends or changes.
  An event that has no receiver (an idle timer, a dead subscription, a signal that is
  not connected, no list widget) leaves the state as it is.
\<close>

datatype event =
    ShowTimerTimeout
  | HideTimerTimeout
  | AnimationFrame bool
  | PaintEvent
  | ResizeEvent
  | EnterEvent
  | LeaveEvent
  | ShowFromOther
  | HideFromOther
  | HideIgnoringEnterEvents
  | WindowActiveChanged
  | PlaylistChanged
  | ListCheckForHide
  | ListHeightValue int
  | ListScrollToRequest int
  | ListPreventAutoHide bool
  | ListCurrentSongY int

definition setListHeight :: "int \<Rightarrow> panel \<Rightarrow> panel" where
  "setListHeight h s =
     s\<lparr>scroll := (scroll s)\<lparr>sc_widget :=
          map_option (\<lambda>l. l\<lparr>lw_height := h\<rparr>) (sc_widget (scroll s))\<rparr>\<rparr>"

fun step :: "settings \<Rightarrow> app \<Rightarrow> event \<Rightarrow> panel \<Rightarrow> panel" where
  "step st a ShowTimerTimeout s =
     (case showTimer s of None \<Rightarrow> s | Some d \<Rightarrow> startShow st a (s\<lparr>showTimer := None\<rparr>))"
| "step st a HideTimerTimeout s =
     (case hideTimer s of
        None \<Rightarrow> s
      | Some d \<Rightarrow> startHideChecked st a (s\<lparr>hideTimer := None\<rparr>))"
| "step st a (AnimationFrame finished) s =
     (if animating s
      then appearanceCallback st a (if finished then s\<lparr>animating := False\<rparr> else s)
      else s)"
| "step st a PaintEvent s = paintEvent st a s"
| "step st a ResizeEvent s = resizeEvent st s"
| "step st a EnterEvent s = enterEventHook st a s"
| "step st a LeaveEvent s = leaveEventHook s"
| "step st a ShowFromOther s = showFromOther st a s"
| "step st a HideFromOther s = hideFromOther s"
| "step st a HideIgnoringEnterEvents s = hideIgnoringEnterEvents st a s"
| "step st a WindowActiveChanged s =
     (if activeChangedConnected s then windowActiveChanged a s else s)"
| "step st a PlaylistChanged s =
     (if refreshListLifetime s then refreshList st a s else s)"
| "step st a ListCheckForHide s =
     (case sc_widget (scroll s) of
        None \<Rightarrow> s
      | Some l \<Rightarrow>
          if \<not> QRect_contains_point (rect s) (mapFromGlobal a (cursorPos a))
          then s\<lparr>hideTimer := Some kDelayedHideTimeout\<rparr>
          else s)"
| "step st a (ListHeightValue h) s =
     (case sc_widget (scroll s) of
        None \<Rightarrow> s
      | Some l \<Rightarrow> listHeightUpdated st h (setListHeight h s))"
| "step st a (ListScrollToRequest y) s =
     (case sc_widget (scroll s) of
        None \<Rightarrow> s
      | Some l \<Rightarrow> s\<lparr>scroll := (scroll s)\<lparr>sc_scrollToY := Some y\<rparr>\<rparr>)"
| "step st a (ListPreventAutoHide b) s =
     s\<lparr>scroll := (scroll s)\<lparr>sc_widget :=
          map_option (\<lambda>l. l\<lparr>lw_preventAutoHide := b\<rparr>) (sc_widget (scroll s))\<rparr>\<rparr>"
| "step st a (ListCurrentSongY y) s =
     s\<lparr>scroll := (scroll s)\<lparr>sc_widget :=
          map_option (\<lambda>l. l\<lparr>lw_currentSongY := y\<rparr>) (sc_widget (scroll s))\<rparr>\<rparr>"

text \<open>A run of the event loop: each event comes with the application data of its
  moment.\<close>

definition run :: "settings \<Rightarrow> (app \<times> event) list \<Rightarrow> panel \<Rightarrow> panel" where
  "run st evs s = foldl (\<lambda>s' ae. step st (fst ae) (snd ae) s') s evs"

text \<open>Direct calls of the three members that create and destroy the list widget.\<close>

datatype list_call = RefreshList app | PerformDestroy app | HideFinished app

fun call :: "settings \<Rightarrow> list_call \<Rightarrow> panel \<Rightarrow> panel" where
  "call st (RefreshList a) s = refreshList st a s"
| "call st (PerformDestroy a) s = performDestroy st a s"
| "call st (HideFinished a) s = hideFinished st a s"

definition calls :: "settings \<Rightarrow> list_call list \<Rightarrow> panel \<Rightarrow> panel" where
  "calls st cs s = foldl (\<lambda>s' c. call st c s') s cs"

subsection \<open>Invariants of the panel\<close>

text \<open>
  \<open>coupled\<close>: the scroll area owns a list widget exactly when \<open>_listPeer\<close> is set.
  \<open>subscribed\<close>: while a list widget exists the subscription to the playlist changes is
  alive. \<open>serialFresh\<close>: the list widget in place was constructed before any that will
  be. \<open>gated\<close>: the layout never changes, and only the full layout has a cover or a
  scroll shadow.
\<close>

definition coupled :: "panel \<Rightarrow> bool" where
  "coupled s = ((sc_widget (scroll s) = None) = (listPeer s = None))"

definition subscribed :: "panel \<Rightarrow> bool" where
  "subscribed s = (sc_widget (scroll s) = None \<or> refreshListLifetime s)"

definition serialFresh :: "panel \<Rightarrow> bool" where
  "serialFresh s =
     (case sc_widget (scroll s) of None \<Rightarrow> True | Some w \<Rightarrow> lw_serial w < allocated s)"

definition gated :: "Layout \<Rightarrow> panel \<Rightarrow> bool" where
  "gated l s = (layout s = l \<and> (l = Full \<or> (cover s = None \<and> scrollShadow s = None)))"

definition panel_inv :: "Layout \<Rightarrow> panel \<Rightarrow> bool" where
  "panel_inv l s = (coupled s \<and> subscribed s \<and> serialFresh s \<and> gated l s)"

subsection \<open>A concrete panel\<close>

text \<open>
  Settings and application data to run the panel on: a song of peer 1 is playing in
  \<open>app_song\<close>, nothing is playing in \<open>app_silent\<close>. \<open>playing_state\<close> is the panel
  after \<open>showFromOther\<close> and the show timer (shown, its appearance animation running),
  \<open>shown_state\<close> the panel after the animation's last frame and \<open>squeezed_state\<close> that
  panel resized to a height that leaves no room for the scroll area.
\<close>

definition st0 :: settings where
  "st0 = \<lparr>mediaPlayerPanelMarginLeft = 10, mediaPlayerPanelMarginBottom = 10,
          mediaPlayerPanelWidth = 344, mediaPlayerListHeightMax = 280,
          mediaPlayerListMarginBottom = 10, mediaPlayerScrollShadow_extend_bottom = 2,
          infoMediaMargin_top = 2, infoMediaMargin_bottom = 2,
          overviewFileLayout_songPadding_top = 8, overviewFileLayout_songPadding_bottom = 8,
          overviewFileLayout_songThumbSize = 36,
          rtl = False, platformMac = False,
          coverInitialHeight = 120, coverResizeGetHeight = (\<lambda>w. 120)\<rparr>"

definition app_song :: app where
  "app_song =
     \<lparr>current_contextId = Some 7,
      histItemById = (\<lambda>i. if i = 7
                          then Some \<lparr>getMedia = Some \<lparr>getDocument =
                                         Some \<lparr>isSharedMediaMusic = True\<rparr>\<rparr>,
                                     history_peer = 1\<rparr>
                          else None),
      migrateTo = (\<lambda>p. None), migrateFrom = (\<lambda>p. None),
      hasWindow = True, windowActive = True,
      widgetGlobalPos = (100, 50), cursorPos = (0, 0), newListHeight = 200\<rparr>"

definition app_silent :: app where
  "app_silent = app_song\<lparr>current_contextId := None\<rparr>"

definition show_events :: "(app \<times> event) list" where
  "show_events = [(app_song, ShowFromOther), (app_song, ShowTimerTimeout)]"

definition playing_state :: panel where
  "playing_state =
     run st0 [(app_song, ShowFromOther), (app_song, ShowTimerTimeout)] (Panel_ctor st0 Full)"

definition shown_state :: panel where
  "shown_state = step st0 app_song (AnimationFrame True) playing_state"

definition squeezed_state :: panel where
  "squeezed_state = shown_state\<lparr>height := 100, scroll := (scroll shown_state)\<lparr>sc_geometry := None\<rparr>\<rparr>"

definition list_calls :: "list_call list" where
  "list_calls = [RefreshList app_song, RefreshList app_silent, RefreshList app_song]"

section \<open>Supporting lemmas\<close>

subsection \<open>What the geometry and animation functions leave alone\<close>

lemmas inv_defs = panel_inv_def coupled_def subscribed_def serialFresh_def gated_def

lemmas op_defs = updateSize_def updateControlsGeometry_def resizedCover_def
  geometryScrollTop_def geometryScrollHeight_def
  refreshList_def ensureCreated_def performDestroy_def hideFinished_def startAnimation_def
  showChildren_def hideChildren_def appearanceCallback_def startHide_def startHideChecked_def
  hideIgnoringEnterEvents_def startShow_def paintEvent_def enterEventHook_def
  leaveEventHook_def showFromOther_def hideFromOther_def windowActiveChanged_def
  listHeightUpdated_def scrollPlaylistToCurrentTrack_def resizeEvent_def setListHeight_def
  newListWidget_def newCover_def newShadow_def Panel_ctor_def
  contentLeft_def contentTop_def contentRight_def contentBottom_def contentWidth_def
  scrollMarginBottom_def emptyInnerHeight_def contentTooSmall_def preventAutoHide_def
  listHeight_def resolvePeer_def resolveMigrated_def run_def

lemmas rect_defs = QRect_xywh_def QRect_point_size_def QRect_topLeft_def QRect_size_def
  QRect_isNull_def marginsRemoved_def QRect_contains_def rect_def mapFromGlobal_def

lemma updateSize_frame [simp]:
  "layout (updateSize st s) = layout s"
  "hidden (updateSize st s) = hidden s"
  "hiding (updateSize st s) = hiding s"
  "animating (updateSize st s) = animating s"
  "cover (updateSize st s) = cover s"
  "listPeer (updateSize st s) = listPeer s"
  "listMigratedPeer (updateSize st s) = listMigratedPeer s"
  "refreshListLifetime (updateSize st s) = refreshListLifetime s"
  "allocated (updateSize st s) = allocated s"
  "showTimer (updateSize st s) = showTimer s"
  "hideTimer (updateSize st s) = hideTimer s"
  "sc_widget (scroll (updateSize st s)) = sc_widget (scroll s)"
  "(scrollShadow (updateSize st s) = None) = (scrollShadow s = None)"
  by (simp_all add: updateSize_def Let_def)

lemma updateControlsGeometry_frame [simp]:
  "layout (updateControlsGeometry st s) = layout s"
  "hidden (updateControlsGeometry st s) = hidden s"
  "hiding (updateControlsGeometry st s) = hiding s"
  "animating (updateControlsGeometry st s) = animating s"
  "width (updateControlsGeometry st s) = width s"
  "height (updateControlsGeometry st s) = height s"
  "listPeer (updateControlsGeometry st s) = listPeer s"
  "listMigratedPeer (updateControlsGeometry st s) = listMigratedPeer s"
  "refreshListLifetime (updateControlsGeometry st s) = refreshListLifetime s"
  "allocated (updateControlsGeometry st s) = allocated s"
  "showTimer (updateControlsGeometry st s) = showTimer s"
  "hideTimer (updateControlsGeometry st s) = hideTimer s"
  "sc_widget (scroll (updateControlsGeometry st s))
     = map_option (\<lambda>l. l\<lparr>lw_width := contentWidth st s\<rparr>) (sc_widget (scroll s))"
  "(cover (updateControlsGeometry st s) = None) = (cover s = None)"
  "(scrollShadow (updateControlsGeometry st s) = None) = (scrollShadow s = None)"
  by (simp_all add: updateControlsGeometry_def resizedCover_def Let_def split: option.splits)

lemma showChildren_frame [simp]:
  "layout (showChildren s) = layout s"
  "hidden (showChildren s) = hidden s"
  "hiding (showChildren s) = hiding s"
  "animating (showChildren s) = animating s"
  "cacheNull (showChildren s) = cacheNull s"
  "listPeer (showChildren s) = listPeer s"
  "listMigratedPeer (showChildren s) = listMigratedPeer s"
  "refreshListLifetime (showChildren s) = refreshListLifetime s"
  "allocated (showChildren s) = allocated s"
  "showTimer (showChildren s) = showTimer s"
  "hideTimer (showChildren s) = hideTimer s"
  "sc_widget (scroll (showChildren s)) = sc_widget (scroll s)"
  "(cover (showChildren s) = None) = (cover s = None)"
  "(scrollShadow (showChildren s) = None) = (scrollShadow s = None)"
  by (simp_all add: showChildren_def)

lemma hideChildren_frame [simp]:
  "layout (hideChildren s) = layout s"
  "hidden (hideChildren s) = hidden s"
  "hiding (hideChildren s) = hiding s"
  "animating (hideChildren s) = animating s"
  "cacheNull (hideChildren s) = cacheNull s"
  "listPeer (hideChildren s) = listPeer s"
  "listMigratedPeer (hideChildren s) = listMigratedPeer s"
  "refreshListLifetime (hideChildren s) = refreshListLifetime s"
  "allocated (hideChildren s) = allocated s"
  "showTimer (hideChildren s) = showTimer s"
  "hideTimer (hideChildren s) = hideTimer s"
  "sc_widget (scroll (hideChildren s)) = sc_widget (scroll s)"
  "(cover (hideChildren s) = None) = (cover s = None)"
  "(scrollShadow (hideChildren s) = None) = (scrollShadow s = None)"
  by (simp_all add: hideChildren_def)

lemma startAnimation_frame [simp]:
  "layout (startAnimation s) = layout s"
  "hidden (startAnimation s) = hidden s"
  "hiding (startAnimation s) = hiding s"
  "animating (startAnimation s) = True"
  "listPeer (startAnimation s) = listPeer s"
  "listMigratedPeer (startAnimation s) = listMigratedPeer s"
  "refreshListLifetime (startAnimation s) = refreshListLifetime s"
  "allocated (startAnimation s) = allocated s"
  "showTimer (startAnimation s) = showTimer s"
  "hideTimer (startAnimation s) = hideTimer s"
  "sc_widget (scroll (startAnimation s)) = sc_widget (scroll s)"
  "(cover (startAnimation s) = None) = (cover s = None)"
  "(scrollShadow (startAnimation s) = None) = (scrollShadow s = None)"
  by (simp_all add: startAnimation_def Let_def)

lemma scrollPlaylistToCurrentTrack_frame [simp]:
  "layout (scrollPlaylistToCurrentTrack st s) = layout s"
  "hidden (scrollPlaylistToCurrentTrack st s) = hidden s"
  "hiding (scrollPlaylistToCurrentTrack st s) = hiding s"
  "animating (scrollPlaylistToCurrentTrack st s) = animating s"
  "cover (scrollPlaylistToCurrentTrack st s) = cover s"
  "scrollShadow (scrollPlaylistToCurrentTrack st s) = scrollShadow s"
  "listPeer (scrollPlaylistToCurrentTrack st s) = listPeer s"
  "listMigratedPeer (scrollPlaylistToCurrentTrack st s) = listMigratedPeer s"
  "refreshListLifetime (scrollPlaylistToCurrentTrack st s) = refreshListLifetime s"
  "allocated (scrollPlaylistToCurrentTrack st s) = allocated s"
  "sc_widget (scroll (scrollPlaylistToCurrentTrack st s)) = sc_widget (scroll s)"
  by (simp_all add: scrollPlaylistToCurrentTrack_def split: option.splits)

lemma startHide_frame [simp]:
  "layout (startHide s) = layout s"
  "hidden (startHide s) = hidden s"
  "listPeer (startHide s) = listPeer s"
  "listMigratedPeer (startHide s) = listMigratedPeer s"
  "refreshListLifetime (startHide s) = refreshListLifetime s"
  "allocated (startHide s) = allocated s"
  "showTimer (startHide s) = showTimer s"
  "hideTimer (startHide s) = hideTimer s"
  "sc_widget (scroll (startHide s)) = sc_widget (scroll s)"
  "(cover (startHide s) = None) = (cover s = None)"
  "(scrollShadow (startHide s) = None) = (scrollShadow s = None)"
  by (simp_all add: startHide_def)

lemma refreshList_frame [simp]:
  "layout (refreshList st a s) = layout s"
  "refreshListLifetime (refreshList st a s) = refreshListLifetime s"
  "(cover (refreshList st a s) = None) = (cover s = None)"
  "(scrollShadow (refreshList st a s) = None) = (scrollShadow s = None)"
  by (simp_all add: refreshList_def Let_def)

subsection \<open>Creating and destroying the list widget\<close>

lemma refreshList_unchanged:
  "resolvePeer a = listPeer s \<Longrightarrow> resolveMigrated a = listMigratedPeer s \<Longrightarrow>
   refreshList st a s = s"
  by (auto simp: refreshList_def Let_def)

lemma refreshList_changed:
  "listPeer s \<noteq> resolvePeer a \<or> listMigratedPeer s \<noteq> resolveMigrated a \<Longrightarrow>
   map_option lw_serial (sc_widget (scroll (refreshList st a s)))
     = map_option (\<lambda>p. allocated s) (resolvePeer a)
   \<and> listPeer (refreshList st a s) = resolvePeer a"
  by (cases "resolvePeer a")
    (auto simp: refreshList_def Let_def newListWidget_def resolveMigrated_def)

lemma listPeer_refreshList: "listPeer (refreshList st a s) = resolvePeer a"
  by (cases "listPeer s \<noteq> resolvePeer a \<or> listMigratedPeer s \<noteq> resolveMigrated a")
    (auto simp: refreshList_changed refreshList_unchanged)

lemma performDestroy_destroys:
  "sc_widget (scroll (performDestroy st a s)) = None"
  "sc_widget (scroll s) \<noteq> None \<Longrightarrow> listPeer (performDestroy st a s) = None"
  by (auto simp: performDestroy_def Let_def)

lemma coupled_refreshList: "coupled s \<Longrightarrow> coupled (refreshList st a s)"
  by (auto simp: refreshList_def Let_def coupled_def)

lemma coupled_performDestroy: "coupled s \<Longrightarrow> coupled (performDestroy st a s)"
  by (auto simp: performDestroy_def Let_def coupled_def)

lemma coupled_hideFinished: "coupled s \<Longrightarrow> coupled (hideFinished st a s)"
  unfolding hideFinished_def by (rule coupled_performDestroy) (simp add: coupled_def)

lemma coupled_calls: "coupled s \<Longrightarrow> coupled (calls st cs s)"
proof (induction cs arbitrary: s)
  case Nil
  then show ?case by (simp add: calls_def)
next
  case (Cons c cs)
  have "coupled (call st c s)"
    using Cons.prems
    by (cases c) (simp_all add: coupled_refreshList coupled_performDestroy coupled_hideFinished)
  from Cons.IH [OF this] show ?case by (simp add: calls_def)
qed

lemma coupled_ctor: "coupled (Panel_ctor st l)"
  by (simp add: Panel_ctor_def coupled_def)

lemma ensureCreated_subscribes:
  "subscribed s \<Longrightarrow> refreshListLifetime (ensureCreated st a s)"
  by (auto simp: ensureCreated_def Let_def subscribed_def)

lemma ensureCreated_children:
  "layout s = Full \<Longrightarrow> sc_widget (scroll s) = None \<Longrightarrow>
   cover (ensureCreated st a s) \<noteq> None \<and> scrollShadow (ensureCreated st a s) \<noteq> None"
  "layout s \<noteq> Full \<Longrightarrow>
   (cover (ensureCreated st a s) = None) = (cover s = None)
   \<and> (scrollShadow (ensureCreated st a s) = None) = (scrollShadow s = None)"
  by (simp_all add: ensureCreated_def Let_def del: not_None_eq)

subsection \<open>The invariant holds in every state the event loop reaches\<close>

lemma panel_inv_fields [simp]:
  "panel_inv l (s\<lparr>hidden := b\<rparr>) = panel_inv l s"
  "panel_inv l (s\<lparr>hiding := b\<rparr>) = panel_inv l s"
  "panel_inv l (s\<lparr>cacheNull := b\<rparr>) = panel_inv l s"
  "panel_inv l (s\<lparr>animating := b\<rparr>) = panel_inv l s"
  "panel_inv l (s\<lparr>ignoringEnterEvents := b\<rparr>) = panel_inv l s"
  "panel_inv l (s\<lparr>activeChangedConnected := b\<rparr>) = panel_inv l s"
  "panel_inv l (s\<lparr>showTimer := t\<rparr>) = panel_inv l s"
  "panel_inv l (s\<lparr>hideTimer := t\<rparr>) = panel_inv l s"
  by (simp_all add: inv_defs split: option.splits)

lemma panel_inv_geometry [simp]:
  "panel_inv l (updateSize st s) = panel_inv l s"
  "panel_inv l (updateControlsGeometry st s) = panel_inv l s"
  "panel_inv l (showChildren s) = panel_inv l s"
  "panel_inv l (hideChildren s) = panel_inv l s"
  "panel_inv l (startAnimation s) = panel_inv l s"
  "panel_inv l (scrollPlaylistToCurrentTrack st s) = panel_inv l s"
  "panel_inv l (startHide s) = panel_inv l s"
  by (simp_all add: inv_defs split: option.splits)

lemma panel_inv_refreshList:
  "panel_inv l s \<Longrightarrow> refreshListLifetime s \<Longrightarrow> panel_inv l (refreshList st a s)"
  by (simp add: refreshList_def Let_def) (auto simp: inv_defs newListWidget_def)

lemma panel_inv_performDestroy: "panel_inv l s \<Longrightarrow> panel_inv l (performDestroy st a s)"
  by (simp add: performDestroy_def Let_def) (auto simp: inv_defs)

lemma panel_inv_hideFinished: "panel_inv l s \<Longrightarrow> panel_inv l (hideFinished st a s)"
  by (simp add: hideFinished_def panel_inv_performDestroy)

lemma panel_inv_ensureCreated: "panel_inv l s \<Longrightarrow> panel_inv l (ensureCreated st a s)"
proof (cases "sc_widget (scroll s) = None")
  case False
  assume "panel_inv l s"
  with False show ?thesis by (simp add: ensureCreated_def)
next
  case True
  assume inv: "panel_inv l s"
  let ?s1 = "if layout s = Full
             then s\<lparr>cover := Some (newCover st), scrollShadow := Some newShadow\<rparr> else s"
  have "panel_inv l (?s1\<lparr>refreshListLifetime := True\<rparr>)"
    using inv by (auto simp: inv_defs)
  then have "panel_inv l (refreshList st a (?s1\<lparr>refreshListLifetime := True\<rparr>))"
    by (rule panel_inv_refreshList) simp
  with True show ?thesis
    by (simp add: ensureCreated_def Let_def)
qed

lemma panel_inv_startShow: "panel_inv l s \<Longrightarrow> panel_inv l (startShow st a s)"
  by (simp add: startShow_def Let_def panel_inv_ensureCreated)

lemma panel_inv_leaveEventHook: "panel_inv l s \<Longrightarrow> panel_inv l (leaveEventHook s)"
  by (simp add: leaveEventHook_def Let_def)

lemma panel_inv_listHeightUpdated:
  "panel_inv l s \<Longrightarrow> panel_inv l (listHeightUpdated st h (setListHeight h s))"
  by (simp add: listHeightUpdated_def) (auto simp: inv_defs setListHeight_def split: option.splits)

lemma panel_inv_step: "panel_inv l s \<Longrightarrow> panel_inv l (step st a ev s)"
proof (cases ev)
  case ShowTimerTimeout
  assume "panel_inv l s"
  then show ?thesis using ShowTimerTimeout
    by (simp add: panel_inv_startShow split: option.splits)
next
  case HideTimerTimeout
  assume "panel_inv l s"
  then show ?thesis using HideTimerTimeout
    by (simp add: startHideChecked_def panel_inv_hideFinished split: option.splits)
next
  case (AnimationFrame fin)
  assume "panel_inv l s"
  then show ?thesis using AnimationFrame
    by (simp add: appearanceCallback_def panel_inv_hideFinished)
next
  case PaintEvent
  assume "panel_inv l s"
  then show ?thesis using PaintEvent
    by (simp add: paintEvent_def panel_inv_hideFinished)
next
  case ResizeEvent
  assume "panel_inv l s"
  then show ?thesis using ResizeEvent by (simp add: resizeEvent_def)
next
  case EnterEvent
  assume "panel_inv l s"
  then show ?thesis using EnterEvent
    by (simp add: enterEventHook_def Let_def panel_inv_startShow)
next
  case LeaveEvent
  assume "panel_inv l s"
  then show ?thesis using LeaveEvent by (simp add: panel_inv_leaveEventHook)
next
  case ShowFromOther
  assume "panel_inv l s"
  then show ?thesis using ShowFromOther
    by (simp add: showFromOther_def Let_def panel_inv_startShow)
next
  case HideFromOther
  assume "panel_inv l s"
  then show ?thesis using HideFromOther by (simp add: hideFromOther_def Let_def)
next
  case HideIgnoringEnterEvents
  assume "panel_inv l s"
  then show ?thesis using HideIgnoringEnterEvents
    by (simp add: hideIgnoringEnterEvents_def Let_def panel_inv_hideFinished)
next
  case WindowActiveChanged
  assume "panel_inv l s"
  then show ?thesis using WindowActiveChanged
    by (simp add: windowActiveChanged_def panel_inv_leaveEventHook)
next
  case PlaylistChanged
  assume "panel_inv l s"
  then show ?thesis using PlaylistChanged by (simp add: panel_inv_refreshList)
next
  case ListCheckForHide
  assume "panel_inv l s"
  then show ?thesis using ListCheckForHide by (simp split: option.splits)
next
  case (ListHeightValue h)
  assume "panel_inv l s"
  then show ?thesis using ListHeightValue
    by (simp add: panel_inv_listHeightUpdated split: option.splits)
next
  case (ListScrollToRequest y)
  assume "panel_inv l s"
  then show ?thesis using ListScrollToRequest
    by (auto simp: inv_defs split: option.splits)
next
  case (ListPreventAutoHide b)
  assume "panel_inv l s"
  then show ?thesis using ListPreventAutoHide
    by (auto simp: inv_defs split: option.splits)
next
  case (ListCurrentSongY y)
  assume "panel_inv l s"
  then show ?thesis using ListCurrentSongY
    by (auto simp: inv_defs split: option.splits)
qed

lemma panel_inv_ctor: "panel_inv l (Panel_ctor st l)"
  by (simp add: Panel_ctor_def) (simp add: inv_defs)

lemma run_snoc: "run st (evs @ [(a, ev)]) s = step st a ev (run st evs s)"
  by (simp add: run_def)

lemma panel_inv_run: "panel_inv l s \<Longrightarrow> panel_inv l (run st evs s)"
proof (induction evs rule: rev_induct)
  case Nil
  then show ?case by (simp add: run_def)
next
  case (snoc ae evs)
  then show ?case by (cases ae) (simp add: run_snoc panel_inv_step)
qed

lemma panel_inv_reachable: "panel_inv l (run st evs (Panel_ctor st l))"
  by (rule panel_inv_run [OF panel_inv_ctor])

subsection \<open>Only \<open>startShow\<close> shows the panel\<close>

lemma hidden_performDestroy [simp]: "hidden (performDestroy st a s) = hidden s"
  by (simp add: performDestroy_def Let_def)

lemma hidden_hideFinished [simp]: "hidden (hideFinished st a s)"
  by (simp add: hideFinished_def)

lemma hidden_refreshList [simp]: "hidden (refreshList st a s) = hidden s"
  by (simp add: refreshList_def Let_def)

lemma hidden_ensureCreated [simp]: "hidden (ensureCreated st a s) = hidden s"
  by (simp add: ensureCreated_def Let_def)

lemma hidden_leaveEventHook [simp]: "hidden (leaveEventHook s) = hidden s"
  by (simp add: leaveEventHook_def Let_def)

lemma hidden_listHeightUpdated [simp]:
  "hidden (listHeightUpdated st h (setListHeight h s)) = hidden s"
  by (simp add: listHeightUpdated_def setListHeight_def)

lemma contentTooSmall_unchanged [simp]:
  "contentTooSmall st (startAnimation s) = contentTooSmall st s"
  "contentTooSmall st (scrollPlaylistToCurrentTrack st s) = contentTooSmall st s"
  "contentTooSmall st (s\<lparr>hidden := b\<rparr>) = contentTooSmall st s"
  "contentTooSmall st (s\<lparr>hiding := b\<rparr>) = contentTooSmall st s"
  by (simp_all add: contentTooSmall_def)

lemma startShow_too_small:
  "contentTooSmall st (ensureCreated st a s) \<Longrightarrow> startShow st a s = ensureCreated st a s"
  by (simp add: startShow_def Let_def)

lemma startShow_shows:
  "hidden s \<Longrightarrow> \<not> hidden (startShow st a s) \<Longrightarrow> \<not> contentTooSmall st (startShow st a s)"
  by (simp add: startShow_def Let_def split: if_splits)

lemma step_shows:
  assumes "hidden s" and "\<not> hidden (step st a ev s)"
  shows "ev \<in> {ShowTimerTimeout, EnterEvent, ShowFromOther}
         \<and> \<not> contentTooSmall st (step st a ev s)"
proof (cases ev)
  case ShowTimerTimeout
  with assms startShow_shows [of "s\<lparr>showTimer := None\<rparr>" st a] show ?thesis
    by (auto split: option.splits)
next
  case HideTimerTimeout
  with assms show ?thesis
    by (simp add: startHideChecked_def split: option.splits if_splits)
next
  case (AnimationFrame fin)
  with assms show ?thesis
    by (simp add: appearanceCallback_def split: if_splits)
next
  case PaintEvent
  with assms show ?thesis by (simp add: paintEvent_def split: if_splits)
next
  case ResizeEvent
  with assms show ?thesis by (simp add: resizeEvent_def)
next
  case EnterEvent
  with assms startShow_shows [of "s\<lparr>hideTimer := None\<rparr>" st a] show ?thesis
    by (auto simp: enterEventHook_def Let_def split: if_splits)
next
  case LeaveEvent
  with assms show ?thesis by simp
next
  case ShowFromOther
  with assms startShow_shows [of "s\<lparr>hideTimer := None\<rparr>" st a] show ?thesis
    by (auto simp: showFromOther_def Let_def split: if_splits)
next
  case HideFromOther
  with assms show ?thesis by (simp add: hideFromOther_def Let_def split: if_splits)
next
  case HideIgnoringEnterEvents
  with assms show ?thesis by (simp add: hideIgnoringEnterEvents_def Let_def)
next
  case WindowActiveChanged
  with assms show ?thesis by (simp add: windowActiveChanged_def split: if_splits)
next
  case PlaylistChanged
  with assms show ?thesis by (simp split: if_splits)
next
  case ListCheckForHide
  with assms show ?thesis by (simp split: option.splits if_splits)
next
  case (ListHeightValue h)
  with assms show ?thesis by (simp split: option.splits)
next
  case (ListScrollToRequest y)
  with assms show ?thesis by (simp split: option.splits)
next
  case (ListPreventAutoHide b)
  with assms show ?thesis by simp
next
  case (ListCurrentSongY y)
  with assms show ?thesis by simp
qed

lemma shown_in_run:
  "hidden s0 \<Longrightarrow> \<not> hidden (run st evs s0) \<Longrightarrow>
   \<exists>evs1 e evs2.
      evs = evs1 @ e # evs2
      \<and> hidden (run st evs1 s0)
      \<and> \<not> hidden (run st (evs1 @ [e]) s0)
      \<and> snd e \<in> {ShowTimerTimeout, EnterEvent, ShowFromOther}
      \<and> \<not> contentTooSmall st (run st (evs1 @ [e]) s0)
      \<and> (\<forall>k\<le>length evs2. \<not> hidden (run st (evs1 @ e # take k evs2) s0))"
proof (induction evs rule: rev_induct)
  case Nil
  then show ?case by (simp add: run_def)
next
  case (snoc x evs)
  obtain a ev where x: "x = (a, ev)" by (cases x)
  have last: "run st (evs @ [x]) s0 = step st a ev (run st evs s0)"
    by (simp add: x run_snoc)
  show ?case
  proof (cases "hidden (run st evs s0)")
    case True
    from step_shows [OF True] snoc.prems(2) last
    have "ev \<in> {ShowTimerTimeout, EnterEvent, ShowFromOther}"
      and "\<not> contentTooSmall st (run st (evs @ [x]) s0)"
      by simp_all
    with True snoc.prems(2) x show ?thesis
      by (intro exI [of _ evs] exI [of _ x] exI [of _ "[]"]) simp
  next
    case False
    from snoc.IH [OF snoc.prems(1) False]
    obtain evs1 e evs2 where split: "evs = evs1 @ e # evs2"
      and before: "hidden (run st evs1 s0)"
      and after: "\<not> hidden (run st (evs1 @ [e]) s0)"
      and by_show: "snd e \<in> {ShowTimerTimeout, EnterEvent, ShowFromOther}"
      and content: "\<not> contentTooSmall st (run st (evs1 @ [e]) s0)"
      and stays: "\<forall>k\<le>length evs2. \<not> hidden (run st (evs1 @ e # take k evs2) s0)"
      by blast
    have "\<not> hidden (run st (evs1 @ e # take k (evs2 @ [x])) s0)"
      if "k \<le> length (evs2 @ [x])" for k
    proof (cases "k \<le> length evs2")
      case True
      with stays show ?thesis by simp
    next
      case False
      with that have "take k (evs2 @ [x]) = evs2 @ [x]" by simp
      with snoc.prems(2) split show ?thesis by simp
    qed
    with split before after by_show content show ?thesis
      by (intro exI [of _ evs1] exI [of _ e] exI [of _ "evs2 @ [x]"]) simp
  qed
qed

lemma hidden_ctor: "hidden (Panel_ctor st l)"
  by (simp add: Panel_ctor_def)

subsection \<open>Containment of rectangles, read as sets of points\<close>

text \<open>For rectangles that are not empty, \<open>QRect::contains\<close> is containment of their
  points.\<close>

lemma QRect_contains_points:
  assumes "x1 r \<le> x2 r" "y1 r \<le> y2 r" "x1 a \<le> x2 a" "y1 a \<le> y2 a"
  shows "QRect_contains a r = (QRect_points r \<subseteq> QRect_points a)"
proof
  assume c: "QRect_contains a r"
  then have "x1 a \<le> x1 r \<and> x2 r \<le> x2 a \<and> y1 a \<le> y1 r \<and> y2 r \<le> y2 a"
    using assms by (auto simp: QRect_contains_def Let_def split: if_splits)
  then show "QRect_points r \<subseteq> QRect_points a"
    by (auto simp: QRect_points_def)
next
  assume sub: "QRect_points r \<subseteq> QRect_points a"
  have "(x1 r, y1 r) \<in> QRect_points r" "(x2 r, y2 r) \<in> QRect_points r"
    using assms by (auto simp: QRect_points_def)
  with sub have "(x1 r, y1 r) \<in> QRect_points a" "(x2 r, y2 r) \<in> QRect_points a"
    by blast+
  then show "QRect_contains a r"
    using assms by (auto simp: QRect_contains_def QRect_isNull_def QRect_points_def Let_def)
qed

section \<open>Verified properties\<close>

subsection \<open>C1: the enter and leave hooks drive the show and hide timers\<close>

text \<open>
  C1. A call of \<open>leaveEventHook\<close> in which \<open>preventAutoHide()\<close> is false cancels the
  show timer and then, if the appearance animation is running, calls \<open>startHide\<close> at
  once, and otherwise arms the hide timer once with 300 ms. A call of
  \<open>enterEventHook\<close> in which \<open>_ignoringEnterEvents\<close> and \<open>contentTooSmall()\<close> are
  false cancels the hide timer and then calls \<open>startShow\<close> at once if the animation is
  running, and otherwise arms the show timer once with 0 ms.
\<close>

theorem hooks_timer_driven:
  "(\<not> preventAutoHide s \<longrightarrow>
      leaveEventHook s =
        (if animating s then startHide (s\<lparr>showTimer := None\<rparr>)
         else s\<lparr>showTimer := None, hideTimer := Some 300\<rparr>)
      \<and> showTimer (leaveEventHook s) = None
      \<and> (\<not> animating s \<longrightarrow> hideTimer (leaveEventHook s) = Some 300))
   \<and> (\<not> ignoringEnterEvents s \<and> \<not> contentTooSmall st s \<longrightarrow>
        enterEventHook st a s =
          (if animating s then startShow st a (s\<lparr>hideTimer := None\<rparr>)
           else s\<lparr>hideTimer := None, showTimer := Some 0\<rparr>)
        \<and> (\<not> animating s \<longrightarrow>
              hideTimer (enterEventHook st a s) = None
              \<and> showTimer (enterEventHook st a s) = Some 0))"
  by (simp add: leaveEventHook_def enterEventHook_def Let_def)

theorem hooks_timer_driven_witness:
  "\<not> preventAutoHide (Panel_ctor st0 Full)
   \<and> \<not> animating (Panel_ctor st0 Full)
   \<and> leaveEventHook (Panel_ctor st0 Full)
       = (Panel_ctor st0 Full)\<lparr>showTimer := None, hideTimer := Some 300\<rparr>
   \<and> \<not> preventAutoHide playing_state \<and> animating playing_state
   \<and> leaveEventHook playing_state = startHide (playing_state\<lparr>showTimer := None\<rparr>)
   \<and> \<not> ignoringEnterEvents playing_state \<and> \<not> contentTooSmall st0 playing_state
   \<and> enterEventHook st0 app_song playing_state
       = startShow st0 app_song (playing_state\<lparr>hideTimer := None\<rparr>)
   \<and> \<not> ignoringEnterEvents shown_state \<and> \<not> contentTooSmall st0 shown_state
   \<and> \<not> animating shown_state
   \<and> enterEventHook st0 app_song shown_state
       = shown_state\<lparr>hideTimer := None, showTimer := Some 0\<rparr>"
proof -
  have ctor: "\<not> preventAutoHide (Panel_ctor st0 Full) \<and> \<not> animating (Panel_ctor st0 Full)"
    by (simp add: op_defs Let_def)
  have playing: "\<not> preventAutoHide playing_state \<and> animating playing_state
      \<and> \<not> ignoringEnterEvents playing_state \<and> \<not> contentTooSmall st0 playing_state"
    by (simp add: playing_state_def op_defs st0_def app_song_def Let_def)
  have shown: "\<not> ignoringEnterEvents shown_state \<and> \<not> contentTooSmall st0 shown_state
      \<and> \<not> animating shown_state"
    by (simp add: shown_state_def playing_state_def op_defs st0_def app_song_def Let_def)
  show ?thesis
    using ctor playing shown
      hooks_timer_driven [of "Panel_ctor st0 Full" st0 app_song]
      hooks_timer_driven [of playing_state st0 app_song]
      hooks_timer_driven [of shown_state st0 app_song]
    by simp
qed

subsection \<open>C2: playlist changes and \<open>refreshList\<close>\<close>

text \<open>
  C2 says that \<open>refreshList\<close> destroys and recreates the list widget exactly when the
  resolved pair of peers differs from the stored pair. It does not: when the song that
  was playing stops, the pair changes to the null pair, the list widget is destroyed and
  none is created.
\<close>

theorem refreshList_destroys_without_recreating:
  "(resolvePeer app_silent, resolveMigrated app_silent)
     \<noteq> (listPeer playing_state, listMigratedPeer playing_state)
   \<and> sc_widget (scroll playing_state) \<noteq> None
   \<and> sc_widget (scroll (refreshList st0 app_silent playing_state)) = None"
  by (simp add: playing_state_def app_silent_def op_defs st0_def app_song_def Let_def)

text \<open>
  C2, amended. After \<open>ensureCreated\<close>, in any state the event loop reaches, the
  subscription to the playlist changes is alive, and while it is alive a playlist change
  runs \<open>refreshList\<close>. When the resolved pair equals the stored pair, \<open>refreshList\<close>
  changes nothing: the list widget stays in place. When the pair differs, the list
  widget in place is destroyed, and a new one (with the next serial number, which no
  widget in place has) is created exactly when the resolved peer is not null.
\<close>

theorem refreshList_on_playlist_change:
  "refreshListLifetime (ensureCreated st a (run st evs (Panel_ctor st l)))
   \<and> (refreshListLifetime s \<longrightarrow> step st a PlaylistChanged s = refreshList st a s)
   \<and> ((resolvePeer a, resolveMigrated a) = (listPeer s, listMigratedPeer s) \<longrightarrow>
        refreshList st a s = s)
   \<and> ((resolvePeer a, resolveMigrated a) \<noteq> (listPeer s, listMigratedPeer s) \<longrightarrow>
        map_option lw_serial (sc_widget (scroll (refreshList st a s)))
          = map_option (\<lambda>p. allocated s) (resolvePeer a))
   \<and> serialFresh (run st evs (Panel_ctor st l))"
proof -
  have inv: "panel_inv l (run st evs (Panel_ctor st l))"
    by (rule panel_inv_reachable)
  then have "refreshListLifetime (ensureCreated st a (run st evs (Panel_ctor st l)))"
    by (simp add: panel_inv_def ensureCreated_subscribes)
  moreover have "serialFresh (run st evs (Panel_ctor st l))"
    using inv by (simp add: panel_inv_def)
  moreover have "(resolvePeer a, resolveMigrated a) \<noteq> (listPeer s, listMigratedPeer s) \<longrightarrow>
        map_option lw_serial (sc_widget (scroll (refreshList st a s)))
          = map_option (\<lambda>p. allocated s) (resolvePeer a)"
    using refreshList_changed [of s a st] by auto
  ultimately show ?thesis
    by (simp add: refreshList_unchanged)
qed

theorem refreshList_on_playlist_change_witness:
  "refreshListLifetime (ensureCreated st0 app_song (run st0 [] (Panel_ctor st0 Full)))
   \<and> refreshListLifetime playing_state
   \<and> step st0 app_silent PlaylistChanged playing_state
       = refreshList st0 app_silent playing_state
   \<and> (resolvePeer app_song, resolveMigrated app_song)
       = (listPeer playing_state, listMigratedPeer playing_state)
   \<and> refreshList st0 app_song playing_state = playing_state
   \<and> (resolvePeer app_silent, resolveMigrated app_silent)
       \<noteq> (listPeer playing_state, listMigratedPeer playing_state)
   \<and> map_option lw_serial (sc_widget (scroll (refreshList st0 app_silent playing_state)))
       = None
   \<and> (resolvePeer app_song, resolveMigrated app_song)
       \<noteq> (listPeer (Panel_ctor st0 Full), listMigratedPeer (Panel_ctor st0 Full))
   \<and> map_option lw_serial (sc_widget (scroll (refreshList st0 app_song (Panel_ctor st0 Full))))
       = Some 0"
proof -
  have playing: "refreshListLifetime playing_state
      \<and> listPeer playing_state = Some 1 \<and> listMigratedPeer playing_state = None"
    by (simp add: playing_state_def op_defs st0_def app_song_def Let_def)
  have song: "resolvePeer app_song = Some 1 \<and> resolveMigrated app_song = None"
    by (simp add: resolvePeer_def resolveMigrated_def app_song_def Let_def)
  have silent: "resolvePeer app_silent = None \<and> resolveMigrated app_silent = None"
    by (simp add: resolvePeer_def resolveMigrated_def app_silent_def app_song_def Let_def)
  have ctor: "listPeer (Panel_ctor st0 Full) = None \<and> allocated (Panel_ctor st0 Full) = 0"
    by (simp add: Panel_ctor_def)
  show ?thesis
    using playing song silent ctor
      refreshList_on_playlist_change [of st0 app_song "[]" Full playing_state]
      refreshList_on_playlist_change [of st0 app_silent "[]" Full playing_state]
      refreshList_on_playlist_change [of st0 app_song "[]" Full "Panel_ctor st0 Full"]
    by simp
qed

subsection \<open>C3: \<open>overlaps\<close>\<close>

text \<open>
  C3. \<open>overlaps(globalRect)\<close> is false whenever the panel is hidden or the appearance
  animation is running. When the panel is visible and not animating, it is true exactly
  when the rectangle, mapped into widget coordinates, is contained in the panel's
  rectangle without the content margins (left and right exchanged under right-to-left
  layout, top, bottom).
\<close>

theorem overlaps_spec:
  "((hidden s \<or> animating s) \<longrightarrow> \<not> overlaps st a s g)
   \<and> (\<not> hidden s \<and> \<not> animating s \<longrightarrow>
        overlaps st a s g =
          QRect_contains
            (marginsRemoved (rect s)
               \<lparr>m_left = (if rtl st then contentRight st s else contentLeft st),
                m_top = contentTop st s,
                m_right = (if rtl st then contentLeft st else contentRight st s),
                m_bottom = contentBottom st\<rparr>)
            (QRect_point_size (mapFromGlobal a (QRect_topLeft g)) (QRect_size g)))"
  by (simp add: overlaps_def Let_def)

theorem overlaps_spec_witness:
  "hidden (Panel_ctor st0 Full)
   \<and> \<not> overlaps st0 app_song (Panel_ctor st0 Full) (QRect_xywh 150 100 50 50)
   \<and> animating playing_state
   \<and> \<not> overlaps st0 app_song playing_state (QRect_xywh 150 100 50 50)
   \<and> \<not> hidden shown_state \<and> \<not> animating shown_state
   \<and> overlaps st0 app_song shown_state (QRect_xywh 150 100 50 50)
   \<and> \<not> overlaps st0 app_song shown_state (QRect_xywh 105 100 50 50)"
proof -
  have ctor: "hidden (Panel_ctor st0 Full)"
    by (simp add: Panel_ctor_def)
  have playing: "animating playing_state"
    by (simp add: playing_state_def op_defs st0_def app_song_def Let_def)
  have shown: "\<not> hidden shown_state \<and> \<not> animating shown_state
      \<and> width shown_state = 354 \<and> height shown_state = 340 \<and> layout shown_state = Full"
    by (simp add: shown_state_def playing_state_def op_defs st0_def app_song_def Let_def)
  have margins: "\<not> rtl st0 \<and> contentLeft st0 = 10 \<and> contentBottom st0 = 10
      \<and> widgetGlobalPos app_song = (100, 50)"
    by (simp add: st0_def app_song_def contentLeft_def contentBottom_def)
  show ?thesis
    using ctor playing shown margins
      overlaps_spec [of "Panel_ctor st0 Full" st0 app_song "QRect_xywh 150 100 50 50"]
      overlaps_spec [of playing_state st0 app_song "QRect_xywh 150 100 50 50"]
      overlaps_spec [of shown_state st0 app_song "QRect_xywh 150 100 50 50"]
      overlaps_spec [of shown_state st0 app_song "QRect_xywh 105 100 50 50"]
    by (simp add: rect_defs contentTop_def contentRight_def Let_def)
qed

subsection \<open>C4: \<open>updateSize\<close>\<close>

text \<open>
  C4. \<open>updateSize\<close> sets the width to
  \<open>contentLeft() + st::mediaPlayerPanelWidth + contentRight()\<close> and the height to
  \<open>contentTop()\<close>, plus the cover's height when there is a cover, plus (when the list
  height is positive) \<open>min(listHeight, st::mediaPlayerListHeightMax) +
  st::mediaPlayerListMarginBottom\<close>, plus \<open>contentBottom()\<close>. The scroll area, and the
  scroll shadow where there is one, are made visible exactly when the list height is
  positive.
\<close>

theorem updateSize_geometry:
  "width (updateSize st s) = contentLeft st + mediaPlayerPanelWidth st + contentRight st s
   \<and> height (updateSize st s) =
       contentTop st s
       + (case cover s of Some c \<Rightarrow> cv_height c | None \<Rightarrow> 0)
       + (if 0 < listHeight s
          then min (listHeight s) (mediaPlayerListHeightMax st) + mediaPlayerListMarginBottom st
          else 0)
       + contentBottom st
   \<and> sc_hidden (scroll (updateSize st s)) = (\<not> 0 < listHeight s)
   \<and> map_option sh_hidden (scrollShadow (updateSize st s))
       = map_option (\<lambda>sh. \<not> 0 < listHeight s) (scrollShadow s)"
  by (simp add: updateSize_def Let_def option.map_comp comp_def)

theorem updateSize_geometry_witness:
  "width (updateSize st0 shown_state) = 354
   \<and> height (updateSize st0 shown_state) = 340
   \<and> \<not> sc_hidden (scroll (updateSize st0 shown_state))
   \<and> map_option sh_hidden (scrollShadow (updateSize st0 shown_state)) = Some False
   \<and> height (updateSize st0 (Panel_ctor st0 OnlyPlaylist)) = 20
   \<and> sc_hidden (scroll (updateSize st0 (Panel_ctor st0 OnlyPlaylist)))"
proof -
  have shown: "layout shown_state = Full \<and> map_option cv_height (cover shown_state) = Some 120
      \<and> listHeight shown_state = 200 \<and> scrollShadow shown_state \<noteq> None"
    by (simp add: shown_state_def playing_state_def op_defs st0_def app_song_def Let_def)
  have ctor: "layout (Panel_ctor st0 OnlyPlaylist) = OnlyPlaylist
      \<and> cover (Panel_ctor st0 OnlyPlaylist) = None
      \<and> listHeight (Panel_ctor st0 OnlyPlaylist) = 0"
    by (simp add: op_defs Let_def)
  have numbers: "contentLeft st0 = 10 \<and> contentBottom st0 = 10
      \<and> mediaPlayerPanelWidth st0 = 344 \<and> mediaPlayerListHeightMax st0 = 280
      \<and> mediaPlayerListMarginBottom st0 = 10 \<and> mediaPlayerPanelMarginLeft st0 = 10"
    by (simp add: st0_def contentLeft_def contentBottom_def)
  show ?thesis
    using shown ctor numbers
      updateSize_geometry [of st0 shown_state]
      updateSize_geometry [of st0 "Panel_ctor st0 OnlyPlaylist"]
    by (auto simp: contentTop_def contentRight_def split: option.splits)
qed

subsection \<open>C5: the scroll height in \<open>updateControlsGeometry\<close>\<close>

text \<open>
  C5. \<open>updateControlsGeometry\<close> computes the scroll area's height as
  \<open>max(height() - scrollTop - contentBottom() - scrollMarginBottom(), 0)\<close>, where
  \<open>scrollTop\<close> is \<open>contentTop()\<close> plus the height of the resized cover; the height is
  never negative, and the scroll area's geometry is changed only when it is positive.
\<close>

theorem updateControlsGeometry_scroll:
  "geometryScrollTop st s =
     contentTop st s
     + (case cover s of Some c \<Rightarrow> coverResizeGetHeight st (contentWidth st s) | None \<Rightarrow> 0)
   \<and> geometryScrollHeight st s =
       max (height s - geometryScrollTop st s - contentBottom st - scrollMarginBottom) 0
   \<and> 0 \<le> geometryScrollHeight st s
   \<and> sc_geometry (scroll (updateControlsGeometry st s)) =
       (if 0 < geometryScrollHeight st s
        then Some (contentRight st s, geometryScrollTop st s, contentWidth st s,
                   geometryScrollHeight st s)
        else sc_geometry (scroll s))
   \<and> (sc_geometry (scroll (updateControlsGeometry st s)) \<noteq> sc_geometry (scroll s)
        \<longrightarrow> 0 < geometryScrollHeight st s)"
  by (auto simp: updateControlsGeometry_def geometryScrollHeight_def geometryScrollTop_def
      resizedCover_def Let_def split: option.splits)

theorem updateControlsGeometry_scroll_witness:
  "geometryScrollTop st0 squeezed_state = 120
   \<and> geometryScrollHeight st0 squeezed_state = 0
   \<and> sc_geometry (scroll (updateControlsGeometry st0 squeezed_state)) = None
   \<and> geometryScrollHeight st0 (squeezed_state\<lparr>height := 340\<rparr>) = 210
   \<and> sc_geometry (scroll (updateControlsGeometry st0 (squeezed_state\<lparr>height := 340\<rparr>)))
       = Some (0, 120, 344, 210)
   \<and> sc_geometry (scroll (updateControlsGeometry st0 (squeezed_state\<lparr>height := 340\<rparr>)))
       \<noteq> sc_geometry (scroll (squeezed_state\<lparr>height := 340\<rparr>))"
proof -
  have facts: "layout squeezed_state = Full \<and> cover squeezed_state \<noteq> None
      \<and> width squeezed_state = 354 \<and> height squeezed_state = 100
      \<and> sc_geometry (scroll squeezed_state) = None"
    by (simp add: squeezed_state_def shown_state_def playing_state_def op_defs st0_def
        app_song_def Let_def)
  have numbers: "contentLeft st0 = 10 \<and> contentBottom st0 = 10
      \<and> coverResizeGetHeight st0 = (\<lambda>w. 120)"
    by (simp add: st0_def contentLeft_def contentBottom_def)
  show ?thesis
    using facts numbers
      updateControlsGeometry_scroll [of st0 squeezed_state]
      updateControlsGeometry_scroll [of st0 "squeezed_state\<lparr>height := 340\<rparr>"]
    by (auto simp: contentTop_def contentRight_def contentWidth_def scrollMarginBottom_def
        split: option.splits)
qed

subsection \<open>C6: the child widgets and the layout\<close>

text \<open>
  C6. The scroll area is there from construction, for every layout, without a list
  widget; the constructor leaves the cover and the scroll shadow null.
  \<open>ensureCreated\<close> creates both when the layout is \<open>Layout::Full\<close> and no list
  widget exists, and creates neither when the layout is not \<open>Layout::Full\<close>. In every
  state the event loop reaches, the layout is the one the panel was constructed with,
  and the cover or the scroll shadow is non-null only if that layout is
  \<open>Layout::Full\<close>.
\<close>

theorem children_gated_by_layout:
  "sc_widget (scroll (Panel_ctor st l)) = None
   \<and> cover (Panel_ctor st l) = None
   \<and> scrollShadow (Panel_ctor st l) = None
   \<and> (layout s = Full \<and> sc_widget (scroll s) = None \<longrightarrow>
        cover (ensureCreated st a s) \<noteq> None \<and> scrollShadow (ensureCreated st a s) \<noteq> None)
   \<and> (layout s \<noteq> Full \<longrightarrow>
        (cover (ensureCreated st a s) = None) = (cover s = None)
        \<and> (scrollShadow (ensureCreated st a s) = None) = (scrollShadow s = None))
   \<and> layout (run st evs (Panel_ctor st l)) = l
   \<and> (cover (run st evs (Panel_ctor st l)) \<noteq> None
        \<or> scrollShadow (run st evs (Panel_ctor st l)) \<noteq> None \<longrightarrow> l = Full)"
proof -
  have "panel_inv l (run st evs (Panel_ctor st l))"
    by (rule panel_inv_reachable)
  then have "layout (run st evs (Panel_ctor st l)) = l"
    and "cover (run st evs (Panel_ctor st l)) \<noteq> None
         \<or> scrollShadow (run st evs (Panel_ctor st l)) \<noteq> None \<longrightarrow> l = Full"
    by (auto simp: panel_inv_def gated_def)
  moreover have "sc_widget (scroll (Panel_ctor st l)) = None"
    and "cover (Panel_ctor st l) = None" and "scrollShadow (Panel_ctor st l) = None"
    by (simp_all add: Panel_ctor_def)
  moreover have "layout s = Full \<and> sc_widget (scroll s) = None \<longrightarrow>
      cover (ensureCreated st a s) \<noteq> None \<and> scrollShadow (ensureCreated st a s) \<noteq> None"
    by (intro impI, erule conjE) (rule ensureCreated_children)
  moreover have "layout s \<noteq> Full \<longrightarrow>
      (cover (ensureCreated st a s) = None) = (cover s = None)
      \<and> (scrollShadow (ensureCreated st a s) = None) = (scrollShadow s = None)"
    by (intro impI) (rule ensureCreated_children)
  ultimately show ?thesis
    by - (intro conjI, assumption+)
qed

theorem children_gated_by_layout_witness:
  "layout (Panel_ctor st0 Full) = Full \<and> sc_widget (scroll (Panel_ctor st0 Full)) = None
   \<and> cover (ensureCreated st0 app_song (Panel_ctor st0 Full)) \<noteq> None
   \<and> scrollShadow (ensureCreated st0 app_song (Panel_ctor st0 Full)) \<noteq> None
   \<and> layout (Panel_ctor st0 OnlyPlaylist) \<noteq> Full
   \<and> cover (ensureCreated st0 app_song (Panel_ctor st0 OnlyPlaylist)) = None
   \<and> scrollShadow (ensureCreated st0 app_song (Panel_ctor st0 OnlyPlaylist)) = None
   \<and> cover (run st0 show_events (Panel_ctor st0 Full)) \<noteq> None
   \<and> layout (run st0 show_events (Panel_ctor st0 Full)) = Full
   \<and> cover (run st0 show_events (Panel_ctor st0 OnlyPlaylist)) = None
   \<and> scrollShadow (run st0 show_events (Panel_ctor st0 OnlyPlaylist)) = None"
proof -
  have ctor: "layout (Panel_ctor st0 Full) = Full
      \<and> layout (Panel_ctor st0 OnlyPlaylist) = OnlyPlaylist"
    by (simp add: Panel_ctor_def)
  have shown: "cover (run st0 show_events (Panel_ctor st0 Full)) \<noteq> None"
    by (simp add: show_events_def op_defs st0_def app_song_def Let_def)
  show ?thesis
    using ctor shown
      children_gated_by_layout [of st0 Full "Panel_ctor st0 Full" app_song show_events]
      children_gated_by_layout
        [of st0 OnlyPlaylist "Panel_ctor st0 OnlyPlaylist" app_song show_events]
    by auto
qed

subsection \<open>C8: \<open>peer()\<close> needs a list widget\<close>

text \<open>
  C8. \<open>peer()\<close> returns \<open>_listPeer\<close> as a \<open>not_null\<close> pointer, so it fails exactly
  when \<open>_listPeer\<close> is null. \<open>_listPeer\<close> is null after construction; in every state
  the event loop reaches, it is null exactly when the scroll area owns no list widget;
  \<open>refreshList\<close> sets it to the resolved peer, so installs it when that peer is not
  null and resets it when that peer is null; \<open>performDestroy\<close> resets it when it destroys
  the list widget. So a call of \<open>peer()\<close> is valid only while a list widget exists.
\<close>

theorem peer_needs_list_widget:
  "peer (Panel_ctor st l) = Inl NotNullViolated
   \<and> (peer s = Inl NotNullViolated) = (listPeer s = None)
   \<and> (sc_widget (scroll (run st evs (Panel_ctor st l))) = None)
       = (peer (run st evs (Panel_ctor st l)) = Inl NotNullViolated)
   \<and> (resolvePeer a = Some p \<longrightarrow> peer (refreshList st a s) = Inr p)
   \<and> (resolvePeer a = None \<longrightarrow> peer (refreshList st a s) = Inl NotNullViolated)
   \<and> (sc_widget (scroll s) \<noteq> None \<longrightarrow> peer (performDestroy st a s) = Inl NotNullViolated)"
proof -
  have null: "(peer s' = Inl NotNullViolated) = (listPeer s' = None)" for s'
    by (simp add: peer_def split: option.splits)
  have "panel_inv l (run st evs (Panel_ctor st l))"
    by (rule panel_inv_reachable)
  then have "(sc_widget (scroll (run st evs (Panel_ctor st l))) = None)
       = (peer (run st evs (Panel_ctor st l)) = Inl NotNullViolated)"
    by (simp add: null panel_inv_def coupled_def)
  moreover have "peer (Panel_ctor st l) = Inl NotNullViolated"
    by (simp add: peer_def Panel_ctor_def)
  moreover have "peer (refreshList st a s) = Inr p" if "resolvePeer a = Some p"
    using that by (simp add: peer_def listPeer_refreshList)
  moreover have "peer (refreshList st a s) = Inl NotNullViolated" if "resolvePeer a = None"
    using that by (simp add: peer_def listPeer_refreshList)
  moreover have "peer (performDestroy st a s) = Inl NotNullViolated"
    if "sc_widget (scroll s) \<noteq> None"
    using that by (simp add: null performDestroy_destroys)
  ultimately show ?thesis
    using null [of s] by blast
qed

theorem peer_needs_list_widget_witness:
  "peer (Panel_ctor st0 Full) = Inl NotNullViolated
   \<and> sc_widget (scroll (run st0 [] (Panel_ctor st0 Full))) = None
   \<and> resolvePeer app_song = Some 1
   \<and> peer (refreshList st0 app_song (Panel_ctor st0 Full)) = Inr 1
   \<and> resolvePeer app_silent = None
   \<and> peer (refreshList st0 app_silent playing_state) = Inl NotNullViolated
   \<and> sc_widget (scroll playing_state) \<noteq> None
   \<and> peer playing_state = Inr 1
   \<and> peer (performDestroy st0 app_song playing_state) = Inl NotNullViolated"
proof -
  have song: "resolvePeer app_song = Some 1"
    by (simp add: resolvePeer_def app_song_def Let_def)
  have silent: "resolvePeer app_silent = None"
    by (simp add: resolvePeer_def app_silent_def app_song_def Let_def)
  have playing: "sc_widget (scroll playing_state) \<noteq> None \<and> listPeer playing_state = Some 1"
    by (simp add: playing_state_def op_defs st0_def app_song_def Let_def)
  have start: "sc_widget (scroll (run st0 [] (Panel_ctor st0 Full))) = None"
    by (simp add: run_def Panel_ctor_def)
  show ?thesis
    using song silent playing start
      peer_needs_list_widget [of st0 Full "Panel_ctor st0 Full" "[]" app_song 1]
      peer_needs_list_widget [of st0 Full playing_state "[]" app_silent 1]
      peer_needs_list_widget [of st0 Full playing_state "[]" app_song 1]
    by (simp add: peer_def)
qed

subsection \<open>C9: the panel is shown only with content\<close>

text \<open>
  C9. \<open>startShow\<close> returns without showing the panel whenever \<open>contentTooSmall()\<close>
  holds after \<open>ensureCreated\<close>. An event makes a hidden panel visible only through
  \<open>startShow\<close> (the show timer, or an enter event or \<open>showFromOther\<close> during the
  animation), and then \<open>contentTooSmall()\<close> is false. The panel is hidden after
  construction. Hence whenever the panel is visible after a run of events, there is an
  event of the run that showed it, with \<open>contentTooSmall()\<close> false at that moment, and
  the panel has stayed visible since.
\<close>

theorem shown_only_with_content:
  "(contentTooSmall st (ensureCreated st a s) \<longrightarrow>
      startShow st a s = ensureCreated st a s \<and> hidden (startShow st a s) = hidden s)
   \<and> (hidden s \<and> \<not> hidden (step st a ev s) \<longrightarrow>
        ev \<in> {ShowTimerTimeout, EnterEvent, ShowFromOther}
        \<and> \<not> contentTooSmall st (step st a ev s))
   \<and> hidden (Panel_ctor st l)
   \<and> (\<not> hidden (run st evs (Panel_ctor st l)) \<longrightarrow>
        (\<exists>evs1 e evs2.
           evs = evs1 @ e # evs2
           \<and> hidden (run st evs1 (Panel_ctor st l))
           \<and> \<not> hidden (run st (evs1 @ [e]) (Panel_ctor st l))
           \<and> snd e \<in> {ShowTimerTimeout, EnterEvent, ShowFromOther}
           \<and> \<not> contentTooSmall st (run st (evs1 @ [e]) (Panel_ctor st l))
           \<and> (\<forall>k\<le>length evs2.
                 \<not> hidden (run st (evs1 @ e # take k evs2) (Panel_ctor st l)))))"
proof -
  have "startShow st a s = ensureCreated st a s \<and> hidden (startShow st a s) = hidden s"
    if "contentTooSmall st (ensureCreated st a s)"
    using startShow_too_small [OF that] by simp
  moreover have "ev \<in> {ShowTimerTimeout, EnterEvent, ShowFromOther}
        \<and> \<not> contentTooSmall st (step st a ev s)"
    if "hidden s \<and> \<not> hidden (step st a ev s)"
    using that step_shows [of s st a ev] by blast
  moreover note hidden_ctor [of st l]
  moreover note shown_in_run [where ?s0.0 = "Panel_ctor st l" and st = st and evs = evs]
  ultimately show ?thesis by blast
qed

theorem shown_only_with_content_witness:
  "contentTooSmall st0 (ensureCreated st0 app_silent (Panel_ctor st0 OnlyPlaylist))
   \<and> hidden (startShow st0 app_silent (Panel_ctor st0 OnlyPlaylist))
   \<and> hidden (Panel_ctor st0 Full\<lparr>showTimer := Some 300\<rparr>)
   \<and> \<not> hidden (step st0 app_song ShowTimerTimeout (Panel_ctor st0 Full\<lparr>showTimer := Some 300\<rparr>))
   \<and> \<not> contentTooSmall st0
         (step st0 app_song ShowTimerTimeout (Panel_ctor st0 Full\<lparr>showTimer := Some 300\<rparr>))
   \<and> \<not> hidden (run st0 show_events (Panel_ctor st0 Full))
   \<and> (\<exists>evs1 e evs2.
         show_events = evs1 @ e # evs2
         \<and> hidden (run st0 evs1 (Panel_ctor st0 Full))
         \<and> \<not> hidden (run st0 (evs1 @ [e]) (Panel_ctor st0 Full))
         \<and> snd e \<in> {ShowTimerTimeout, EnterEvent, ShowFromOther}
         \<and> \<not> contentTooSmall st0 (run st0 (evs1 @ [e]) (Panel_ctor st0 Full))
         \<and> (\<forall>k\<le>length evs2.
               \<not> hidden (run st0 (evs1 @ e # take k evs2) (Panel_ctor st0 Full))))"
proof -
  have small: "contentTooSmall st0 (ensureCreated st0 app_silent (Panel_ctor st0 OnlyPlaylist))
    \<and> hidden (Panel_ctor st0 OnlyPlaylist)"
    by (simp add: op_defs st0_def app_silent_def app_song_def Let_def)
  have fired: "hidden (Panel_ctor st0 Full\<lparr>showTimer := Some 300\<rparr>)
    \<and> \<not> hidden (step st0 app_song ShowTimerTimeout
                   (Panel_ctor st0 Full\<lparr>showTimer := Some 300\<rparr>))"
    by (simp add: op_defs st0_def app_song_def Let_def)
  have shown: "\<not> hidden (run st0 show_events (Panel_ctor st0 Full))"
    by (simp add: show_events_def op_defs st0_def app_song_def Let_def)
  show ?thesis
    using small fired shown
      shown_only_with_content
        [of st0 app_silent "Panel_ctor st0 OnlyPlaylist" ShowTimerTimeout Full show_events]
      shown_only_with_content
        [of st0 app_song "Panel_ctor st0 Full\<lparr>showTimer := Some 300\<rparr>"
          ShowTimerTimeout Full show_events]
    by simp
qed

subsection \<open>C10: the list widget and \<open>_listPeer\<close> live together\<close>

text \<open>
  C10. After construction and any sequence of calls of \<open>refreshList\<close>,
  \<open>performDestroy\<close> and \<open>hideFinished\<close>, the scroll area owns a list widget if and
  only if \<open>_listPeer\<close> is not null. \<open>refreshList\<close> creates both together (when a
  peer is resolved and none is stored) and destroys both together (when the pair changes
  and no peer is resolved); \<open>performDestroy\<close> destroys both together.
\<close>

theorem list_widget_coupled_with_peer:
  "(sc_widget (scroll (calls st cs (Panel_ctor st l))) \<noteq> None)
     = (listPeer (calls st cs (Panel_ctor st l)) \<noteq> None)
   \<and> (resolvePeer a \<noteq> None \<and> listPeer s = None \<longrightarrow>
        sc_widget (scroll (refreshList st a s)) \<noteq> None
        \<and> listPeer (refreshList st a s) = resolvePeer a)
   \<and> ((listPeer s \<noteq> resolvePeer a \<or> listMigratedPeer s \<noteq> resolveMigrated a)
        \<and> resolvePeer a = None \<longrightarrow>
        sc_widget (scroll (refreshList st a s)) = None \<and> listPeer (refreshList st a s) = None)
   \<and> (sc_widget (scroll s) \<noteq> None \<longrightarrow>
        sc_widget (scroll (performDestroy st a s)) = None
        \<and> listPeer (performDestroy st a s) = None)"
proof -
  have "coupled (calls st cs (Panel_ctor st l))"
    by (rule coupled_calls [OF coupled_ctor])
  then have "(sc_widget (scroll (calls st cs (Panel_ctor st l))) \<noteq> None)
     = (listPeer (calls st cs (Panel_ctor st l)) \<noteq> None)"
    by (simp add: coupled_def)
  moreover have "sc_widget (scroll (refreshList st a s)) \<noteq> None
        \<and> listPeer (refreshList st a s) = resolvePeer a"
    if "resolvePeer a \<noteq> None \<and> listPeer s = None"
    using that refreshList_changed [of s a st] by (cases "resolvePeer a") auto
  moreover have "sc_widget (scroll (refreshList st a s)) = None
        \<and> listPeer (refreshList st a s) = None"
    if "(listPeer s \<noteq> resolvePeer a \<or> listMigratedPeer s \<noteq> resolveMigrated a)
        \<and> resolvePeer a = None"
    using that refreshList_changed [of s a st] by auto
  moreover have "sc_widget (scroll (performDestroy st a s)) = None
        \<and> listPeer (performDestroy st a s) = None"
    if "sc_widget (scroll s) \<noteq> None"
    using that by (simp add: performDestroy_destroys)
  ultimately show ?thesis by blast
qed

theorem list_widget_coupled_with_peer_witness:
  "sc_widget (scroll (calls st0 list_calls (Panel_ctor st0 Full))) \<noteq> None
   \<and> listPeer (calls st0 list_calls (Panel_ctor st0 Full)) = Some 1
   \<and> sc_widget (scroll (calls st0 (list_calls @ [HideFinished app_song]) (Panel_ctor st0 Full)))
       = None
   \<and> listPeer (calls st0 (list_calls @ [HideFinished app_song]) (Panel_ctor st0 Full)) = None
   \<and> resolvePeer app_song \<noteq> None \<and> listPeer (Panel_ctor st0 Full) = None
   \<and> sc_widget (scroll (refreshList st0 app_song (Panel_ctor st0 Full))) \<noteq> None
   \<and> listPeer (refreshList st0 app_song (Panel_ctor st0 Full)) = Some 1
   \<and> listPeer playing_state \<noteq> resolvePeer app_silent
   \<and> sc_widget (scroll (refreshList st0 app_silent playing_state)) = None
   \<and> listPeer (refreshList st0 app_silent playing_state) = None
   \<and> sc_widget (scroll playing_state) \<noteq> None
   \<and> sc_widget (scroll (performDestroy st0 app_song playing_state)) = None
   \<and> listPeer (performDestroy st0 app_song playing_state) = None"
proof -
  have song: "resolvePeer app_song = Some 1"
    by (simp add: resolvePeer_def app_song_def Let_def)
  have silent: "resolvePeer app_silent = None"
    by (simp add: resolvePeer_def app_silent_def app_song_def Let_def)
  have playing: "sc_widget (scroll playing_state) \<noteq> None \<and> listPeer playing_state = Some 1"
    by (simp add: playing_state_def op_defs st0_def app_song_def Let_def)
  have ctor: "listPeer (Panel_ctor st0 Full) = None"
    by (simp add: Panel_ctor_def)
  have after: "listPeer (calls st0 list_calls (Panel_ctor st0 Full)) = Some 1"
    by (simp add: list_calls_def calls_def listPeer_refreshList song)
  have destroyed:
    "sc_widget (scroll (calls st0 (list_calls @ [HideFinished app_song]) (Panel_ctor st0 Full)))
       = None"
    by (simp add: calls_def hideFinished_def performDestroy_destroys)
  show ?thesis
    using song silent playing ctor after destroyed
      list_widget_coupled_with_peer [of st0 list_calls Full app_song "Panel_ctor st0 Full"]
      list_widget_coupled_with_peer
        [of st0 "list_calls @ [HideFinished app_song]" Full app_silent playing_state]
      list_widget_coupled_with_peer [of st0 list_calls Full app_song playing_state]
    by simp
qed

end
